theory Spec2Isabelle
  imports Complex_Main
begin

section \<open>Data model (types.ts)\<close>

text \<open>
  The TypeScript \<open>number\<close> type is modelled by \<open>real\<close>: the arithmetic of the
  handlers is exact here, where the implementation rounds to IEEE doubles. Division by
  the zoom factor is the only division by a state component. The zoom is strictly
  positive in every reachable state (lemma \<open>reachable_zoom\<close>), and the theorems whose
  statement depends on the value of the tolerance assume a positive zoom; a zoom of zero,
  where the implementation computes an infinite tolerance, is outside the model.
  Record fields that would clash with common variable names or library constants carry
  a prefix (\<open>pt_x\<close> for \<open>Point.x\<close>, \<open>ent_id\<close> for \<open>BaseEntity.id\<close>,
  \<open>layer_id\<close> for \<open>Layer.id\<close>, \<open>view_x\<close> for \<open>ViewState.x\<close>).
\<close>

datatype ToolType = SELECT | LINE | RECTANGLE | CIRCLE | ARC | TEXT | PAN

record Point =
  pt_x :: real
  pt_y :: real

record BaseEntity =
  ent_id :: string
  layerId :: string
  color :: "string option"
  selected :: "bool option"

datatype Entity =
    LineEntity BaseEntity Point Point
  | RectEntity BaseEntity real real real real
  | CircleEntity BaseEntity real real real
  | TextEntity BaseEntity real real string real

fun base :: "Entity \<Rightarrow> BaseEntity" where
  "base (LineEntity b start fin) = b"
| "base (RectEntity b x y width height) = b"
| "base (CircleEntity b cx cy r) = b"
| "base (TextEntity b x y txt fontSize) = b"

fun entityType :: "Entity \<Rightarrow> string" where
  "entityType (LineEntity b start fin) = ''line''"
| "entityType (RectEntity b x y width height) = ''rect''"
| "entityType (CircleEntity b cx cy r) = ''circle''"
| "entityType (TextEntity b x y txt fontSize) = ''text''"

record Layer =
  layer_id :: string
  layer_name :: string
  layer_color :: string
  visible :: bool
  locked :: bool

record ViewState =
  view_x :: real
  view_y :: real
  zoom :: real

section \<open>Geometry and transforms (utils/math.ts)\<close>

definition distance :: "Point \<Rightarrow> Point \<Rightarrow> real" where
  "distance p1 p2 = sqrt ((pt_x p2 - pt_x p1)\<^sup>2 + (pt_y p2 - pt_y p1)\<^sup>2)"

definition screenToWorld :: "real \<Rightarrow> real \<Rightarrow> real \<Rightarrow> real \<Rightarrow> real \<Rightarrow> Point" where
  "screenToWorld screenX screenY viewX viewY zm =
     \<lparr>pt_x = (screenX - viewX) / zm, pt_y = (screenY - viewY) / zm\<rparr>"

definition worldToScreen :: "real \<Rightarrow> real \<Rightarrow> real \<Rightarrow> real \<Rightarrow> real \<Rightarrow> Point" where
  "worldToScreen worldX worldY viewX viewY zm =
     \<lparr>pt_x = worldX * zm + viewX, pt_y = worldY * zm + viewY\<rparr>"

section \<open>Hit-test engine (App.tsx, handleMouseDown, select branch)\<close>

text \<open>
  The layer guard of the selection callback: \<open>layers.find(l => l.id === ent.layerId)?.visible\<close>
  is falsy when no layer has the entity's layer identifier, or when the first such layer
  is not visible.
\<close>

definition layerVisible :: "Layer list \<Rightarrow> Entity \<Rightarrow> bool" where
  "layerVisible ls ent =
     (case List.find (\<lambda>l. layer_id l = layerId (base ent)) ls of
        None \<Rightarrow> False
      | Some l \<Rightarrow> visible l)"

text \<open>The per-variant tests of the callback, in the order of the source.\<close>

fun variantHit :: "Point \<Rightarrow> real \<Rightarrow> Entity \<Rightarrow> bool" where
  "variantHit worldPos tolerance (CircleEntity b cx cy r) =
     (let d = distance worldPos \<lparr>pt_x = cx, pt_y = cy\<rparr>
      in \<bar>d - r\<bar> < tolerance)"
| "variantHit worldPos tolerance (LineEntity b start fin) =
     (let l2 = (distance start fin)\<^sup>2
      in if l2 = 0 then distance worldPos start < tolerance
         else
           let t = ((pt_x worldPos - pt_x start) * (pt_x fin - pt_x start)
                    + (pt_y worldPos - pt_y start) * (pt_y fin - pt_y start)) / l2;
               tClamped = max 0 (min 1 t);
               proj = \<lparr>pt_x = pt_x start + tClamped * (pt_x fin - pt_x start),
                       pt_y = pt_y start + tClamped * (pt_y fin - pt_y start)\<rparr>
           in distance worldPos proj < tolerance)"
| "variantHit worldPos tolerance (RectEntity b x y width height) =
     (pt_x worldPos \<ge> x \<and> pt_x worldPos \<le> x + width
      \<and> pt_y worldPos \<ge> y \<and> pt_y worldPos \<le> y + height)"
| "variantHit worldPos tolerance (TextEntity b x y txt fontSize) = False"

definition hitCallback :: "Layer list \<Rightarrow> Point \<Rightarrow> real \<Rightarrow> Entity \<Rightarrow> bool" where
  "hitCallback ls worldPos zm ent =
     (if \<not> layerVisible ls ent then False
      else let tolerance = 5 / zm in variantHit worldPos tolerance ent)"

text \<open>\<open>entities.slice().reverse().find(...)\<close>: the first match of the reversed list.\<close>

definition hitTest :: "Entity list \<Rightarrow> Layer list \<Rightarrow> Point \<Rightarrow> real \<Rightarrow> Entity option" where
  "hitTest ents ls worldPos zm = List.find (hitCallback ls worldPos zm) (rev ents)"

section \<open>Application state and handlers (App.tsx)\<close>

record AppState =
  entities :: "Entity list"
  layers :: "Layer list"
  activeLayerId :: string
  view :: ViewState
  tool :: ToolType
  selectedIds :: "string list"
  previewEntity :: "Entity option"
  isDrawing :: bool
  startPoint :: "Point option"
  dragStart :: "Point option"
  commandHistory :: "string list"
  mousePos :: Point

definition INITIAL_LAYERS :: "Layer list" where
  "INITIAL_LAYERS =
     [\<lparr>layer_id = ''0'', layer_name = ''0 (Default)'', layer_color = ''#ffffff'',
        visible = True, locked = False\<rparr>,
      \<lparr>layer_id = ''1'', layer_name = ''Construction'', layer_color = ''#38bdf8'',
        visible = True, locked = False\<rparr>,
      \<lparr>layer_id = ''2'', layer_name = ''Dimensions'', layer_color = ''#fbbf24'',
        visible = True, locked = False\<rparr>]"

definition INITIAL_VIEW :: ViewState where
  "INITIAL_VIEW = \<lparr>view_x = 0, view_y = 0, zoom = 1\<rparr>"

definition initialState :: AppState where
  "initialState =
     \<lparr>entities = [], layers = INITIAL_LAYERS, activeLayerId = ''0'', view = INITIAL_VIEW,
      tool = SELECT, selectedIds = [], previewEntity = None, isDrawing = False,
      startPoint = None, dragStart = None,
      commandHistory = [''Welcome to Gemini CAD Studio.''],
      mousePos = \<lparr>pt_x = 0, pt_y = 0\<rparr>\<rparr>"

text \<open>
  \<open>layers.find(l => l.id === activeLayerId) || layers[0]\<close>: with no layer at all the
  result is \<open>undefined\<close>, written \<open>None\<close>.
\<close>

definition getActiveLayer :: "AppState \<Rightarrow> Layer option" where
  "getActiveLayer s =
     (case List.find (\<lambda>l. layer_id l = activeLayerId s) (layers s) of
        Some l \<Rightarrow> Some l
      | None \<Rightarrow> (case layers s of [] \<Rightarrow> None | l # rest \<Rightarrow> Some l))"

text \<open>\<open>[...prev.slice(-4), msg]\<close>: the last four messages, then the new one.\<close>

definition addToHistory :: "string \<Rightarrow> string list \<Rightarrow> string list" where
  "addToHistory msg prev = drop (length prev - 4) prev @ [msg]"

text \<open>
  A mouse event carries the client coordinates and the button. The handlers also read
  two things from their environment, passed here as arguments: the canvas element's
  bounding rectangle (\<open>None\<close> when \<open>canvasRef.current\<close> is null) and, for a pointer-down,
  the identifier that \<open>generateId()\<close> draws.
\<close>

record MouseEvent =
  clientX :: real
  clientY :: real
  button :: int

record DOMRect =
  rect_left :: real
  rect_top :: real

datatype error = TypeError

definition eventWorldPos :: "DOMRect \<Rightarrow> MouseEvent \<Rightarrow> AppState \<Rightarrow> Point" where
  "eventWorldPos rect e s =
     screenToWorld (clientX e - rect_left rect) (clientY e - rect_top rect)
       (view_x (view s)) (view_y (view s)) (zoom (view s))"

text \<open>
  \<open>handleMouseDown\<close>. Reading \<open>getActiveLayer().color\<close> throws a TypeError when there is
  no layer; every other path returns.
\<close>

definition handleMouseDown ::
  "DOMRect option \<Rightarrow> string \<Rightarrow> MouseEvent \<Rightarrow> AppState \<Rightarrow> error + AppState" where
  "handleMouseDown canvasRef newId e s =
     (if tool s = PAN then
        Inr (s\<lparr>dragStart := Some \<lparr>pt_x = clientX e, pt_y = clientY e\<rparr>\<rparr>)
      else case canvasRef of
        None \<Rightarrow> Inr s
      | Some rect \<Rightarrow>
          let worldPos = eventWorldPos rect e s in
          if button e = 1 then
            Inr (s\<lparr>dragStart := Some \<lparr>pt_x = clientX e, pt_y = clientY e\<rparr>\<rparr>)
          else if tool s = SELECT then
            (case hitTest (entities s) (layers s) worldPos (zoom (view s)) of
               Some hit \<Rightarrow> Inr (s\<lparr>selectedIds := [ent_id (base hit)]\<rparr>)
             | None \<Rightarrow> Inr (s\<lparr>selectedIds := []\<rparr>))
          else if \<not> isDrawing s then
            (case getActiveLayer s of
               None \<Rightarrow> Inl TypeError
             | Some activeLayer \<Rightarrow>
                 let common = \<lparr>ent_id = newId, layerId = activeLayerId s,
                               color = Some (layer_color activeLayer),
                               selected = Some False\<rparr>;
                     newEnt =
                       (if tool s = LINE then Some (LineEntity common worldPos worldPos)
                        else if tool s = RECTANGLE then
                          Some (RectEntity common (pt_x worldPos) (pt_y worldPos) 0 0)
                        else if tool s = CIRCLE then
                          Some (CircleEntity common (pt_x worldPos) (pt_y worldPos) 0)
                        else None)
                 in Inr (s\<lparr>isDrawing := True, startPoint := Some worldPos,
                            previewEntity := newEnt\<rparr>))
          else
            (case previewEntity s of
               Some pe \<Rightarrow>
                 Inr (s\<lparr>entities := entities s @ [pe], previewEntity := None,
                        commandHistory :=
                          addToHistory (''Created '' @ entityType pe) (commandHistory s),
                        isDrawing := False, startPoint := None\<rparr>)
             | None \<Rightarrow> Inr (s\<lparr>isDrawing := False, startPoint := None\<rparr>)))"

definition handleMouseMove :: "DOMRect option \<Rightarrow> MouseEvent \<Rightarrow> AppState \<Rightarrow> AppState" where
  "handleMouseMove canvasRef e s =
     (case canvasRef of
        None \<Rightarrow> s
      | Some rect \<Rightarrow>
          let worldPos = eventWorldPos rect e s;
              s1 = s\<lparr>mousePos := worldPos\<rparr>
          in (case dragStart s of
               Some ds \<Rightarrow>
                 let dx = clientX e - pt_x ds;
                     dy = clientY e - pt_y ds
                 in s1\<lparr>view := (view s)\<lparr>view_x := view_x (view s) + dx,
                                         view_y := view_y (view s) + dy\<rparr>,
                        dragStart := Some \<lparr>pt_x = clientX e, pt_y = clientY e\<rparr>\<rparr>
             | None \<Rightarrow>
                 (if isDrawing s then
                    (case startPoint s of
                       None \<Rightarrow> s1
                     | Some sp \<Rightarrow>
                         (case previewEntity s of
                            None \<Rightarrow> s1
                          | Some (LineEntity b start fin) \<Rightarrow>
                              s1\<lparr>previewEntity := Some (LineEntity b start worldPos)\<rparr>
                          | Some (RectEntity b x y width height) \<Rightarrow>
                              s1\<lparr>previewEntity :=
                                    Some (RectEntity b x y (pt_x worldPos - pt_x sp)
                                                           (pt_y worldPos - pt_y sp))\<rparr>
                          | Some (CircleEntity b cx cy r) \<Rightarrow>
                              s1\<lparr>previewEntity :=
                                    Some (CircleEntity b cx cy (distance sp worldPos))\<rparr>
                          | Some (TextEntity b x y txt fontSize) \<Rightarrow> s1))
                  else s1)))"

definition handleMouseUp :: "AppState \<Rightarrow> AppState" where
  "handleMouseUp s = (case dragStart s of Some ds \<Rightarrow> s\<lparr>dragStart := None\<rparr> | None \<Rightarrow> s)"

definition handleWheel :: "real \<Rightarrow> AppState \<Rightarrow> AppState" where
  "handleWheel deltaY s =
     (let scaleFactor = 1.1;
          zoomIn = deltaY < 0;
          newZoom = (if zoomIn then zoom (view s) * scaleFactor
                     else zoom (view s) / scaleFactor)
      in s\<lparr>view := (view s)\<lparr>zoom := newZoom\<rparr>\<rparr>)"

definition handleDelete :: "AppState \<Rightarrow> AppState" where
  "handleDelete s =
     (if length (selectedIds s) = 0 then s
      else s\<lparr>entities := filter (\<lambda>e. ent_id (base e) \<notin> set (selectedIds s)) (entities s),
             selectedIds := [],
             commandHistory := addToHistory ''Deleted objects.'' (commandHistory s)\<rparr>)"

definition handleKey :: "string \<Rightarrow> AppState \<Rightarrow> AppState" where
  "handleKey key s =
     (let s1 = (if key = ''Delete'' then handleDelete s else s)
      in if key = ''Escape'' then
           s1\<lparr>isDrawing := False, previewEntity := None, selectedIds := [], tool := SELECT\<rparr>
         else s1)"

text \<open>
  Decimal digits of a natural number, and the rendering of a number inside a template
  string. An integer of magnitude at most \<open>2^53\<close> prints as its decimal digits with a
  leading minus sign when negative (negative zero prints as \<open>0\<close>); the rendering of
  every other number (fractions, exponents) belongs to the runtime and is the
  parameter \<open>other\<close>.
\<close>

fun decimalDigits :: "nat \<Rightarrow> string" where
  "decimalDigits n =
     (if n < 10 then [''0123456789'' ! n]
      else decimalDigits (n div 10) @ [''0123456789'' ! (n mod 10)])"

definition numberToString :: "(real \<Rightarrow> string) \<Rightarrow> real \<Rightarrow> string" where
  "numberToString other v =
     (if v \<in> \<int> \<and> \<bar>v\<bar> \<le> 2 ^ 53 then
        (if v < 0 then ''-'' @ decimalDigits (nat \<lfloor>- v\<rfloor>) else decimalDigits (nat \<lfloor>v\<rfloor>))
      else other v)"

text \<open>The remaining state updates of the component: toolbar, command line, layer panel.\<close>

definition setTool :: "ToolType \<Rightarrow> AppState \<Rightarrow> AppState" where
  "setTool t s = s\<lparr>tool := t\<rparr>"

text \<open>The command line on Enter; \<open>val\<close> is the input after \<open>toUpperCase()\<close>.\<close>

definition handleCommand :: "string \<Rightarrow> AppState \<Rightarrow> AppState" where
  "handleCommand val s =
     (if val = ''L'' then s\<lparr>tool := LINE\<rparr>
      else if val = ''C'' then s\<lparr>tool := CIRCLE\<rparr>
      else if val = ''R'' then s\<lparr>tool := RECTANGLE\<rparr>
      else s\<lparr>commandHistory := addToHistory (''Unknown command: '' @ val) (commandHistory s)\<rparr>)"

definition addLayer :: "string \<Rightarrow> AppState \<Rightarrow> AppState" where
  "addLayer newId s =
     s\<lparr>layers := layers s @
          [\<lparr>layer_id = newId, layer_name = ''Layer '' @ decimalDigits (length (layers s)),
            layer_color = ''#ffffff'', visible = True, locked = False\<rparr>]\<rparr>"

definition setActiveLayerId :: "string \<Rightarrow> AppState \<Rightarrow> AppState" where
  "setActiveLayerId lid s = s\<lparr>activeLayerId := lid\<rparr>"

definition onToggleVisible :: "string \<Rightarrow> AppState \<Rightarrow> AppState" where
  "onToggleVisible lid s =
     s\<lparr>layers := map (\<lambda>pl. if layer_id pl = lid then pl\<lparr>visible := \<not> visible pl\<rparr> else pl)
                      (layers s)\<rparr>"

definition onToggleLock :: "string \<Rightarrow> AppState \<Rightarrow> AppState" where
  "onToggleLock lid s =
     s\<lparr>layers := map (\<lambda>pl. if layer_id pl = lid then pl\<lparr>locked := \<not> locked pl\<rparr> else pl)
                      (layers s)\<rparr>"

text \<open>
  \<open>handleGeminiSubmit\<close> is asynchronous: the part before the call of the generation
  service, and the two continuations (entities returned, or the call failed). Other
  events may be handled in between.
\<close>

definition geminiSubmitted :: "string \<Rightarrow> AppState \<Rightarrow> AppState" where
  "geminiSubmitted prompt s =
     s\<lparr>commandHistory :=
          addToHistory (''AI: '' @ [CHR 0x22] @ prompt @ [CHR 0x22] @ ''...'')
            (commandHistory s)\<rparr>"

definition geminiSucceeded :: "Entity list \<Rightarrow> AppState \<Rightarrow> AppState" where
  "geminiSucceeded newEntities s =
     s\<lparr>entities := entities s @ newEntities,
       commandHistory :=
         addToHistory (''AI: Generated '' @ decimalDigits (length newEntities) @ '' entities.'')
           (commandHistory s)\<rparr>"

definition geminiFailed :: "AppState \<Rightarrow> AppState" where
  "geminiFailed s =
     s\<lparr>commandHistory := addToHistory ''AI: Error generating content.'' (commandHistory s)\<rparr>"

definition handleExportDXF :: "AppState \<Rightarrow> AppState" where
  "handleExportDXF s =
     s\<lparr>commandHistory := addToHistory ''System: DXF Exported.'' (commandHistory s)\<rparr>"

text \<open>
  The states the component can be in: the initial state, and the result of any handler
  on such a state. A pointer-down that throws leaves no successor here; in a reachable
  state it never does (there is always a layer).
\<close>

inductive reachable :: "AppState \<Rightarrow> bool" where
  r_init: "reachable initialState"
| r_mouseDown: "reachable s \<Longrightarrow> handleMouseDown canvasRef newId e s = Inr s' \<Longrightarrow> reachable s'"
| r_mouseMove: "reachable s \<Longrightarrow> reachable (handleMouseMove canvasRef e s)"
| r_mouseUp: "reachable s \<Longrightarrow> reachable (handleMouseUp s)"
| r_wheel: "reachable s \<Longrightarrow> reachable (handleWheel deltaY s)"
| r_key: "reachable s \<Longrightarrow> reachable (handleKey key s)"
| r_delete: "reachable s \<Longrightarrow> reachable (handleDelete s)"
| r_setTool: "reachable s \<Longrightarrow> reachable (setTool t s)"
| r_command: "reachable s \<Longrightarrow> reachable (handleCommand val s)"
| r_addLayer: "reachable s \<Longrightarrow> reachable (addLayer newId s)"
| r_setActiveLayerId: "reachable s \<Longrightarrow> reachable (setActiveLayerId lid s)"
| r_toggleVisible: "reachable s \<Longrightarrow> reachable (onToggleVisible lid s)"
| r_toggleLock: "reachable s \<Longrightarrow> reachable (onToggleLock lid s)"
| r_geminiSubmitted: "reachable s \<Longrightarrow> reachable (geminiSubmitted prompt s)"
| r_geminiSucceeded: "reachable s \<Longrightarrow> reachable (geminiSucceeded newEntities s)"
| r_geminiFailed: "reachable s \<Longrightarrow> reachable (geminiFailed s)"
| r_export: "reachable s \<Longrightarrow> reachable (handleExportDXF s)"

section \<open>Interchange serializer (utils/math.ts, createDXFContent)\<close>

definition dxfPrologue :: string where
  "dxfPrologue = ''0\<newline>SECTION\<newline>2\<newline>HEADER\<newline>0\<newline>ENDSEC\<newline>0\<newline>SECTION\<newline>2\<newline>ENTITIES\<newline>''"

definition dxfTrailer :: string where
  "dxfTrailer = ''0\<newline>ENDSEC\<newline>0\<newline>EOF\<newline>''"

text \<open>What one iteration of the \<open>forEach\<close> appends; a text entity appends nothing.\<close>

fun dxfRecord :: "(real \<Rightarrow> string) \<Rightarrow> Entity \<Rightarrow> string" where
  "dxfRecord other (LineEntity b start fin) =
     ''0\<newline>LINE\<newline>8\<newline>'' @ layerId b
     @ ''\<newline>10\<newline>'' @ numberToString other (pt_x start)
     @ ''\<newline>20\<newline>'' @ numberToString other (- pt_y start)
     @ ''\<newline>11\<newline>'' @ numberToString other (pt_x fin)
     @ ''\<newline>21\<newline>'' @ numberToString other (- pt_y fin) @ ''\<newline>''"
| "dxfRecord other (CircleEntity b cx cy r) =
     ''0\<newline>CIRCLE\<newline>8\<newline>'' @ layerId b
     @ ''\<newline>10\<newline>'' @ numberToString other cx
     @ ''\<newline>20\<newline>'' @ numberToString other (- cy)
     @ ''\<newline>40\<newline>'' @ numberToString other r @ ''\<newline>''"
| "dxfRecord other (RectEntity b ex ey width height) =
     (let x = ex; y = - ey; w = width; h = - height
      in ''0\<newline>LWPOLYLINE\<newline>8\<newline>'' @ layerId b @ ''\<newline>90\<newline>4\<newline>70\<newline>1\<newline>''
         @ ''10\<newline>'' @ numberToString other x @ ''\<newline>20\<newline>'' @ numberToString other y @ ''\<newline>''
         @ ''10\<newline>'' @ numberToString other (x + w) @ ''\<newline>20\<newline>'' @ numberToString other y @ ''\<newline>''
         @ ''10\<newline>'' @ numberToString other (x + w) @ ''\<newline>20\<newline>'' @ numberToString other (y + h) @ ''\<newline>''
         @ ''10\<newline>'' @ numberToString other x @ ''\<newline>20\<newline>'' @ numberToString other (y + h) @ ''\<newline>'')"
| "dxfRecord other (TextEntity b x y txt fontSize) = []"

definition createDXFContent :: "(real \<Rightarrow> string) \<Rightarrow> Entity list \<Rightarrow> string" where
  "createDXFContent other ents =
     foldl (\<lambda>s ent. s @ dxfRecord other ent) dxfPrologue ents @ dxfTrailer"

section \<open>Helper lemmas\<close>

lemma distance_nonneg: "0 \<le> distance p q"
  by (simp add: distance_def)

lemma distance_same_y:
  "distance \<lparr>pt_x = a, pt_y = c\<rparr> \<lparr>pt_x = b, pt_y = c\<rparr> = \<bar>b - a\<bar>"
  by (simp add: distance_def)

lemma distance_sq_zero_iff: "(distance p q)\<^sup>2 = 0 \<longleftrightarrow> (p::Point) = q"
proof -
  have "(distance p q)\<^sup>2 = (pt_x q - pt_x p)\<^sup>2 + (pt_y q - pt_y p)\<^sup>2"
    by (simp add: distance_def)
  then have "(distance p q)\<^sup>2 = 0 \<longleftrightarrow> pt_x q = pt_x p \<and> pt_y q = pt_y p"
    by (simp add: sum_power2_eq_zero_iff)
  then show ?thesis by auto
qed

lemma hitCallback_visible:
  "layerVisible ls ent \<Longrightarrow> hitCallback ls p zm ent = variantHit p (5 / zm) ent"
  by (simp add: hitCallback_def)

lemma hitCallback_hidden: "\<not> layerVisible ls ent \<Longrightarrow> \<not> hitCallback ls p zm ent"
  by (simp add: hitCallback_def)

lemma find_SomeD: "List.find P xs = Some x \<Longrightarrow> x \<in> set xs \<and> P x"
  by (induction xs) (auto split: if_splits)

lemma layerVisible_hidden:
  "\<forall>l \<in> set ls. layer_id l = layerId (base ent) \<longrightarrow> \<not> visible l \<Longrightarrow> \<not> layerVisible ls ent"
  by (auto simp: layerVisible_def split: option.splits dest: find_SomeD)

lemma layerVisible_missing:
  "\<forall>l \<in> set ls. layer_id l \<noteq> layerId (base ent) \<Longrightarrow> \<not> layerVisible ls ent"
  by (rule layerVisible_hidden) simp

lemma find_rev_Some_iff:
  "List.find P (rev xs) = Some x \<longleftrightarrow>
     (\<exists>before after. xs = before @ x # after \<and> P x \<and> (\<forall>y \<in> set after. \<not> P y))"
proof (induction xs rule: rev_induct)
  case Nil
  then show ?case by simp
next
  case (snoc a xs)
  show ?case
  proof (cases "P a")
    case True
    have "(\<exists>before after. xs @ [a] = before @ x # after \<and> P x \<and> (\<forall>y \<in> set after. \<not> P y))
          \<longleftrightarrow> x = a"
    proof
      assume "\<exists>before after. xs @ [a] = before @ x # after \<and> P x \<and> (\<forall>y \<in> set after. \<not> P y)"
      then obtain before after where
        eq: "xs @ [a] = before @ x # after" and nP: "\<forall>y \<in> set after. \<not> P y" by blast
      show "x = a"
      proof (cases after rule: rev_cases)
        case Nil
        with eq show ?thesis by simp
      next
        case (snoc ys y)
        with eq have "y = a" by simp
        with snoc nP True show ?thesis by simp
      qed
    next
      assume "x = a"
      with True have "xs @ [a] = xs @ x # [] \<and> P x \<and> (\<forall>y \<in> set []. \<not> P y)" by simp
      then show "\<exists>before after. xs @ [a] = before @ x # after \<and> P x \<and> (\<forall>y \<in> set after. \<not> P y)"
        by blast
    qed
    with True show ?thesis by auto
  next
    case False
    have "(\<exists>before after. xs @ [a] = before @ x # after \<and> P x \<and> (\<forall>y \<in> set after. \<not> P y))
          \<longleftrightarrow> (\<exists>before after. xs = before @ x # after \<and> P x \<and> (\<forall>y \<in> set after. \<not> P y))"
    proof
      assume "\<exists>before after. xs @ [a] = before @ x # after \<and> P x \<and> (\<forall>y \<in> set after. \<not> P y)"
      then obtain before after where
        eq: "xs @ [a] = before @ x # after" and Px: "P x" and nP: "\<forall>y \<in> set after. \<not> P y"
        by blast
      show "\<exists>before after. xs = before @ x # after \<and> P x \<and> (\<forall>y \<in> set after. \<not> P y)"
      proof (cases after rule: rev_cases)
        case Nil
        with eq have "x = a" by simp
        with Px False show ?thesis by simp
      next
        case (snoc ys y)
        with eq have "xs = before @ x # ys" by simp
        moreover from snoc nP have "\<forall>y \<in> set ys. \<not> P y" by simp
        ultimately show ?thesis using Px by blast
      qed
    next
      assume "\<exists>before after. xs = before @ x # after \<and> P x \<and> (\<forall>y \<in> set after. \<not> P y)"
      then obtain before after where
        eq: "xs = before @ x # after" and Px: "P x" and nP: "\<forall>y \<in> set after. \<not> P y"
        by blast
      from eq have "xs @ [a] = before @ x # (after @ [a])" by simp
      moreover from nP False have "\<forall>y \<in> set (after @ [a]). \<not> P y" by simp
      ultimately show "\<exists>before after. xs @ [a] = before @ x # after \<and> P x \<and> (\<forall>y \<in> set after. \<not> P y)"
        using Px by blast
    qed
    with False snoc.IH show ?thesis by simp
  qed
qed

lemma foldl_append_concat:
  "foldl (\<lambda>s ent. s @ f ent) acc xs = acc @ concat (map f xs)"
  by (induction xs arbitrary: acc) simp_all

lemma createDXFContent_concat:
  "createDXFContent other ents = dxfPrologue @ concat (map (dxfRecord other) ents) @ dxfTrailer"
  by (simp add: createDXFContent_def foldl_append_concat)

lemma numberToString_small:
  "numberToString other 5 = ''5''" "numberToString other (- 5) = ''-5''"
  "numberToString other 2 = ''2''" "numberToString other 0 = ''0''"
  "numberToString other (- 0) = ''0''" "numberToString other 1 = ''1''"
  "numberToString other 7 = ''7''" "numberToString other (- 3) = ''-3''"
  by (simp_all add: numberToString_def)

lemma handleWheel_zoom:
  "zoom (view (handleWheel deltaY s))
     = (if deltaY < 0 then zoom (view s) * 1.1 else zoom (view s) / 1.1)"
  by (simp add: handleWheel_def)

lemma handleWheel_funpow:
  "zoom (view ((handleWheel deltaY ^^ n) s))
     = (if deltaY < 0 then zoom (view s) * 1.1 ^ n else zoom (view s) / 1.1 ^ n)"
  by (induction n) (simp_all add: handleWheel_zoom)

lemma handleMouseDown_selection:
  assumes "handleMouseDown canvasRef newId e s = Inr s'" and "length (selectedIds s) \<le> 1"
  shows "length (selectedIds s') \<le> 1"
  using assms
  by (auto simp: handleMouseDown_def Let_def split: if_splits option.splits)

lemma handleMouseMove_selection: "selectedIds (handleMouseMove canvasRef e s) = selectedIds s"
  by (simp add: handleMouseMove_def Let_def split: option.splits Entity.splits)

lemma handleDelete_selection: "selectedIds (handleDelete s) = []"
  by (simp add: handleDelete_def)

lemma handleKey_selection: "length (selectedIds (handleKey key s)) \<le> length (selectedIds s)"
  by (simp add: handleKey_def Let_def handleDelete_def)

lemma reachable_selection: "reachable s \<Longrightarrow> length (selectedIds s) \<le> 1"
proof (induction rule: reachable.induct)
  case r_init
  show ?case by (simp add: initialState_def)
next
  case (r_mouseDown s canvasRef newId e s')
  then show ?case by (blast intro: handleMouseDown_selection)
next
  case (r_mouseMove s canvasRef e)
  then show ?case by (simp add: handleMouseMove_selection)
next
  case (r_mouseUp s)
  then show ?case by (simp add: handleMouseUp_def split: option.splits)
next
  case (r_wheel s deltaY)
  then show ?case by (simp add: handleWheel_def Let_def)
next
  case (r_key s key)
  then show ?case using handleKey_selection [of key s] by simp
next
  case (r_delete s)
  then show ?case by (simp add: handleDelete_selection)
next
  case (r_setTool s t)
  then show ?case by (simp add: setTool_def)
next
  case (r_command s val)
  then show ?case by (simp add: handleCommand_def)
next
  case (r_addLayer s newId)
  then show ?case by (simp add: addLayer_def)
next
  case (r_setActiveLayerId s lid)
  then show ?case by (simp add: setActiveLayerId_def)
next
  case (r_toggleVisible s lid)
  then show ?case by (simp add: onToggleVisible_def)
next
  case (r_toggleLock s lid)
  then show ?case by (simp add: onToggleLock_def)
next
  case (r_geminiSubmitted s prompt)
  then show ?case by (simp add: geminiSubmitted_def)
next
  case (r_geminiSucceeded s newEntities)
  then show ?case by (simp add: geminiSucceeded_def)
next
  case (r_geminiFailed s)
  then show ?case by (simp add: geminiFailed_def)
next
  case (r_export s)
  then show ?case by (simp add: handleExportDXF_def)
qed

lemma reachable_layers: "reachable s \<Longrightarrow> layers s \<noteq> []"
proof (induction rule: reachable.induct)
  case r_init
  show ?case by (simp add: initialState_def INITIAL_LAYERS_def)
next
  case (r_mouseDown s canvasRef newId e s')
  then show ?case
    by (auto simp: handleMouseDown_def Let_def split: if_splits option.splits)
next
  case (r_mouseMove s canvasRef e)
  then show ?case
    by (simp add: handleMouseMove_def Let_def split: option.splits Entity.splits)
next
  case (r_key s key)
  then show ?case by (simp add: handleKey_def Let_def handleDelete_def)
qed (simp_all add: handleMouseUp_def handleWheel_def Let_def handleDelete_def setTool_def
      handleCommand_def addLayer_def setActiveLayerId_def onToggleVisible_def onToggleLock_def
      geminiSubmitted_def geminiSucceeded_def geminiFailed_def handleExportDXF_def
      split: option.splits)

lemma reachable_zoom: "reachable s \<Longrightarrow> 0 < zoom (view s)"
proof (induction rule: reachable.induct)
  case r_init
  show ?case by (simp add: initialState_def INITIAL_VIEW_def)
next
  case (r_mouseDown s canvasRef newId e s')
  then show ?case
    by (auto simp: handleMouseDown_def Let_def split: if_splits option.splits)
next
  case (r_mouseMove s canvasRef e)
  then show ?case
    by (simp add: handleMouseMove_def Let_def split: option.splits Entity.splits)
next
  case (r_key s key)
  then show ?case by (simp add: handleKey_def Let_def handleDelete_def)
qed (simp_all add: handleMouseUp_def handleWheel_def Let_def handleDelete_def setTool_def
      handleCommand_def addLayer_def setActiveLayerId_def onToggleVisible_def onToggleLock_def
      geminiSubmitted_def geminiSucceeded_def geminiFailed_def handleExportDXF_def
      split: option.splits)

lemma reachable_mouseDown_returns:
  assumes "reachable s"
  shows "\<exists>s'. handleMouseDown canvasRef newId e s = Inr s'"
proof -
  from reachable_layers [OF assms] have "getActiveLayer s \<noteq> None"
    by (cases "layers s") (simp_all add: getActiveLayer_def split: option.splits)
  then obtain l where "getActiveLayer s = Some l" by blast
  then show ?thesis
    by (simp add: handleMouseDown_def Let_def split: option.splits)
qed

section \<open>Hit-test ordering\<close>

text \<open>
  C2. The selection hit test returns the entity inserted last among those that pass
  the layer guard (the first layer with the entity's layer identifier exists and is
  visible) and their variant test, and nothing when no entity passes: an entity whose
  layer is missing or hidden is never returned, of two entities that both pass the later
  one is returned, and an empty entity list gives no match.
\<close>

theorem hitTest_topmost:
  "(hitTest ents ls p zm = None \<longleftrightarrow>
      (\<forall>e \<in> set ents. \<not> (layerVisible ls e \<and> variantHit p (5 / zm) e)))
   \<and> (hitTest ents ls p zm = Some hit \<longleftrightarrow>
      (\<exists>before after. ents = before @ hit # after
          \<and> layerVisible ls hit \<and> variantHit p (5 / zm) hit
          \<and> (\<forall>e \<in> set after. \<not> (layerVisible ls e \<and> variantHit p (5 / zm) e))))
   \<and> ((\<forall>l \<in> set ls. layer_id l \<noteq> layerId (base hit)) \<longrightarrow> hitTest ents ls p zm \<noteq> Some hit)
   \<and> ((\<forall>l \<in> set ls. layer_id l = layerId (base hit) \<longrightarrow> \<not> visible l)
        \<longrightarrow> hitTest ents ls p zm \<noteq> Some hit)
   \<and> (layerVisible ls a \<and> variantHit p (5 / zm) a \<and> layerVisible ls b \<and> variantHit p (5 / zm) b
        \<longrightarrow> hitTest [a, b] ls p zm = Some b)
   \<and> hitTest [] ls p zm = None"
proof -
  have cb: "\<And>e. hitCallback ls p zm e = (layerVisible ls e \<and> variantHit p (5 / zm) e)"
    by (simp add: hitCallback_def)
  have none: "hitTest ents ls p zm = None \<longleftrightarrow>
      (\<forall>e \<in> set ents. \<not> (layerVisible ls e \<and> variantHit p (5 / zm) e))"
    by (auto simp: hitTest_def find_None_iff cb)
  have some: "hitTest ents ls p zm = Some hit \<longleftrightarrow>
      (\<exists>before after. ents = before @ hit # after
          \<and> layerVisible ls hit \<and> variantHit p (5 / zm) hit
          \<and> (\<forall>e \<in> set after. \<not> (layerVisible ls e \<and> variantHit p (5 / zm) e)))"
    unfolding hitTest_def find_rev_Some_iff cb by blast
  have missing: "(\<forall>l \<in> set ls. layer_id l \<noteq> layerId (base hit)) \<longrightarrow> hitTest ents ls p zm \<noteq> Some hit"
    using some layerVisible_missing by blast
  have hidden: "(\<forall>l \<in> set ls. layer_id l = layerId (base hit) \<longrightarrow> \<not> visible l)
        \<longrightarrow> hitTest ents ls p zm \<noteq> Some hit"
    using some layerVisible_hidden by blast
  have two: "layerVisible ls a \<and> variantHit p (5 / zm) a \<and> layerVisible ls b \<and> variantHit p (5 / zm) b
        \<longrightarrow> hitTest [a, b] ls p zm = Some b"
    by (simp add: hitTest_def cb)
  have empty: "hitTest [] ls p zm = None"
    by (simp add: hitTest_def)
  from none some missing hidden two empty show ?thesis by blast
qed

theorem hitTest_topmost_witness:
  "hitTest
     [RectEntity \<lparr>ent_id = ''a'', layerId = ''0'', color = None, selected = None\<rparr> 0 0 10 10,
      RectEntity \<lparr>ent_id = ''b'', layerId = ''1'', color = None, selected = None\<rparr> 2 2 10 10]
     INITIAL_LAYERS \<lparr>pt_x = 5, pt_y = 5\<rparr> 1
   = Some (RectEntity \<lparr>ent_id = ''b'', layerId = ''1'', color = None, selected = None\<rparr> 2 2 10 10)
   \<and> hitTest
     [RectEntity \<lparr>ent_id = ''a'', layerId = ''0'', color = None, selected = None\<rparr> 0 0 10 10,
      RectEntity \<lparr>ent_id = ''b'', layerId = ''1'', color = None, selected = None\<rparr> 2 2 10 10,
      RectEntity \<lparr>ent_id = ''c'', layerId = ''9'', color = None, selected = None\<rparr> 4 4 10 10]
     INITIAL_LAYERS \<lparr>pt_x = 5, pt_y = 5\<rparr> 1
   \<noteq> Some (RectEntity \<lparr>ent_id = ''c'', layerId = ''9'', color = None, selected = None\<rparr> 4 4 10 10)
   \<and> hitTest
     [RectEntity \<lparr>ent_id = ''c'', layerId = ''9'', color = None, selected = None\<rparr> 4 4 10 10]
     INITIAL_LAYERS \<lparr>pt_x = 5, pt_y = 5\<rparr> 1 = None"
proof -
  let ?a = "RectEntity \<lparr>ent_id = ''a'', layerId = ''0'', color = None, selected = None\<rparr> 0 0 10 10"
  let ?b = "RectEntity \<lparr>ent_id = ''b'', layerId = ''1'', color = None, selected = None\<rparr> 2 2 10 10"
  let ?c = "RectEntity \<lparr>ent_id = ''c'', layerId = ''9'', color = None, selected = None\<rparr> 4 4 10 10"
  let ?p = "\<lparr>pt_x = 5, pt_y = 5\<rparr>"
  have va: "layerVisible INITIAL_LAYERS ?a" and vb: "layerVisible INITIAL_LAYERS ?b"
    by (simp_all add: layerVisible_def INITIAL_LAYERS_def)
  have ha: "variantHit ?p (5 / 1) ?a" and hb: "variantHit ?p (5 / 1) ?b"
    by simp_all
  have mc: "\<forall>l \<in> set INITIAL_LAYERS. layer_id l \<noteq> layerId (base ?c)"
    by (simp add: INITIAL_LAYERS_def)
  have nc: "\<forall>e \<in> set [?c]. \<not> (layerVisible INITIAL_LAYERS e \<and> variantHit ?p (5 / 1) e)"
    by (simp add: layerVisible_def INITIAL_LAYERS_def)
  note T = hitTest_topmost [of _ INITIAL_LAYERS ?p 1 ?c ?a ?b]
  from T [of "[?a, ?b]"] va vb ha hb have 1: "hitTest [?a, ?b] INITIAL_LAYERS ?p 1 = Some ?b"
    by blast
  from T [of "[?a, ?b, ?c]"] mc have 2: "hitTest [?a, ?b, ?c] INITIAL_LAYERS ?p 1 \<noteq> Some ?c"
    by blast
  from T [of "[?c]"] nc have 3: "hitTest [?c] INITIAL_LAYERS ?p 1 = None"
    by blast
  from 1 2 3 show ?thesis by blast
qed

section \<open>Circle hit test\<close>

text \<open>
  C5. On a visible layer and with a positive zoom, a circle is hit exactly when the
  distance of the point to the centre differs from the radius by strictly less than
  \<open>5 / zoom\<close>: a point at distance radius plus or minus half the tolerance hits,
  a point at distance radius plus twice the tolerance misses, and a point inside the
  circle at least one tolerance away from the ring misses.
\<close>

theorem circle_hit_ring:
  assumes "0 < zm" and "layerVisible ls (CircleEntity b cx cy r)"
  shows "(hitCallback ls p zm (CircleEntity b cx cy r) \<longleftrightarrow>
            \<bar>distance p \<lparr>pt_x = cx, pt_y = cy\<rparr> - r\<bar> < 5 / zm)
       \<and> (distance p \<lparr>pt_x = cx, pt_y = cy\<rparr> = r + (5 / zm) / 2
            \<longrightarrow> hitCallback ls p zm (CircleEntity b cx cy r))
       \<and> (distance p \<lparr>pt_x = cx, pt_y = cy\<rparr> = r - (5 / zm) / 2
            \<longrightarrow> hitCallback ls p zm (CircleEntity b cx cy r))
       \<and> (distance p \<lparr>pt_x = cx, pt_y = cy\<rparr> = r + 2 * (5 / zm)
            \<longrightarrow> \<not> hitCallback ls p zm (CircleEntity b cx cy r))
       \<and> (distance p \<lparr>pt_x = cx, pt_y = cy\<rparr> \<le> r - 5 / zm
            \<longrightarrow> \<not> hitCallback ls p zm (CircleEntity b cx cy r))"
proof -
  from assms(1) have tol: "0 < 5 / zm" by simp
  have iff: "hitCallback ls p zm (CircleEntity b cx cy r) \<longleftrightarrow>
            \<bar>distance p \<lparr>pt_x = cx, pt_y = cy\<rparr> - r\<bar> < 5 / zm"
    using assms(2) by (simp add: hitCallback_visible)
  have ring: "\<And>t d. 0 < t \<Longrightarrow>
      (d = r + t / 2 \<longrightarrow> \<bar>d - r\<bar> < t) \<and> (d = r - t / 2 \<longrightarrow> \<bar>d - r\<bar> < t)
      \<and> (d = r + 2 * t \<longrightarrow> \<not> \<bar>d - r\<bar> < t) \<and> (d \<le> r - t \<longrightarrow> \<not> \<bar>d - r\<bar> < t)"
    for r :: real
    by (simp add: abs_less_iff)
  show ?thesis unfolding iff using ring [OF tol] by blast
qed

theorem circle_hit_ring_witness:
  "(0::real) < 1
   \<and> layerVisible INITIAL_LAYERS
        (CircleEntity \<lparr>ent_id = ''c'', layerId = ''0'', color = None, selected = None\<rparr> 0 0 10)
   \<and> hitCallback INITIAL_LAYERS \<lparr>pt_x = 12.5, pt_y = 0\<rparr> 1
        (CircleEntity \<lparr>ent_id = ''c'', layerId = ''0'', color = None, selected = None\<rparr> 0 0 10)
   \<and> hitCallback INITIAL_LAYERS \<lparr>pt_x = 7.5, pt_y = 0\<rparr> 1
        (CircleEntity \<lparr>ent_id = ''c'', layerId = ''0'', color = None, selected = None\<rparr> 0 0 10)
   \<and> \<not> hitCallback INITIAL_LAYERS \<lparr>pt_x = 20, pt_y = 0\<rparr> 1
        (CircleEntity \<lparr>ent_id = ''c'', layerId = ''0'', color = None, selected = None\<rparr> 0 0 10)
   \<and> \<not> hitCallback INITIAL_LAYERS \<lparr>pt_x = 0, pt_y = 0\<rparr> 1
        (CircleEntity \<lparr>ent_id = ''c'', layerId = ''0'', color = None, selected = None\<rparr> 0 0 10)"
proof -
  let ?c = "CircleEntity \<lparr>ent_id = ''c'', layerId = ''0'', color = None, selected = None\<rparr> 0 0 10"
  have z: "(0::real) < 1" by simp
  have v: "layerVisible INITIAL_LAYERS ?c"
    by (simp add: layerVisible_def INITIAL_LAYERS_def)
  note T = circle_hit_ring [OF z v]
  have d1: "distance \<lparr>pt_x = 12.5, pt_y = 0\<rparr> \<lparr>pt_x = 0, pt_y = 0\<rparr> = 10 + (5 / 1) / 2"
    by (simp add: distance_same_y)
  have d2: "distance \<lparr>pt_x = 7.5, pt_y = 0\<rparr> \<lparr>pt_x = 0, pt_y = 0\<rparr> = 10 - (5 / 1) / 2"
    by (simp add: distance_same_y)
  have d3: "distance \<lparr>pt_x = 20, pt_y = 0\<rparr> \<lparr>pt_x = 0, pt_y = 0\<rparr> = 10 + 2 * (5 / 1)"
    by (simp add: distance_same_y)
  have d4: "distance \<lparr>pt_x = 0, pt_y = 0\<rparr> \<lparr>pt_x = 0, pt_y = 0\<rparr> \<le> 10 - 5 / 1"
    by (simp add: distance_same_y)
  from T [of "\<lparr>pt_x = 12.5, pt_y = 0\<rparr>"] d1 have 1: "hitCallback INITIAL_LAYERS \<lparr>pt_x = 12.5, pt_y = 0\<rparr> 1 ?c"
    by blast
  from T [of "\<lparr>pt_x = 7.5, pt_y = 0\<rparr>"] d2 have 2: "hitCallback INITIAL_LAYERS \<lparr>pt_x = 7.5, pt_y = 0\<rparr> 1 ?c"
    by blast
  from T [of "\<lparr>pt_x = 20, pt_y = 0\<rparr>"] d3 have 3: "\<not> hitCallback INITIAL_LAYERS \<lparr>pt_x = 20, pt_y = 0\<rparr> 1 ?c"
    by blast
  from T [of "\<lparr>pt_x = 0, pt_y = 0\<rparr>"] d4 have 4: "\<not> hitCallback INITIAL_LAYERS \<lparr>pt_x = 0, pt_y = 0\<rparr> 1 ?c"
    by blast
  from z v 1 2 3 4 show ?thesis by blast
qed

section \<open>Zero-length line hit test\<close>

text \<open>
  C9. For a line whose end point equals its start point the squared length is zero, the
  guard before the division fires, and the line is hit exactly when the distance of the
  point to the start point is strictly less than the tolerance. The squared length is
  zero for no other line, so the division is never by zero.
\<close>

theorem zero_length_line_hit:
  assumes "0 < zm" and "layerVisible ls (LineEntity b start start)"
  shows "(distance start start)\<^sup>2 = 0
       \<and> (hitCallback ls p zm (LineEntity b start start) \<longleftrightarrow> distance p start < 5 / zm)
       \<and> (\<forall>fin. (distance start fin)\<^sup>2 = 0 \<longleftrightarrow> fin = start)"
proof -
  have z: "(distance start start)\<^sup>2 = 0" by (simp add: distance_def)
  have "hitCallback ls p zm (LineEntity b start start) \<longleftrightarrow> distance p start < 5 / zm"
    using assms(2) z by (simp add: hitCallback_visible)
  moreover have "\<forall>fin. (distance start fin)\<^sup>2 = 0 \<longleftrightarrow> fin = start"
    using distance_sq_zero_iff by auto
  ultimately show ?thesis using z by blast
qed

theorem zero_length_line_hit_witness:
  "(0::real) < 1
   \<and> layerVisible INITIAL_LAYERS
        (LineEntity \<lparr>ent_id = ''l'', layerId = ''0'', color = None, selected = None\<rparr>
           \<lparr>pt_x = 3, pt_y = 4\<rparr> \<lparr>pt_x = 3, pt_y = 4\<rparr>)
   \<and> hitCallback INITIAL_LAYERS \<lparr>pt_x = 6, pt_y = 4\<rparr> 1
        (LineEntity \<lparr>ent_id = ''l'', layerId = ''0'', color = None, selected = None\<rparr>
           \<lparr>pt_x = 3, pt_y = 4\<rparr> \<lparr>pt_x = 3, pt_y = 4\<rparr>)
   \<and> \<not> hitCallback INITIAL_LAYERS \<lparr>pt_x = 10, pt_y = 4\<rparr> 1
        (LineEntity \<lparr>ent_id = ''l'', layerId = ''0'', color = None, selected = None\<rparr>
           \<lparr>pt_x = 3, pt_y = 4\<rparr> \<lparr>pt_x = 3, pt_y = 4\<rparr>)"
proof -
  let ?l = "LineEntity \<lparr>ent_id = ''l'', layerId = ''0'', color = None, selected = None\<rparr>
           \<lparr>pt_x = 3, pt_y = 4\<rparr> \<lparr>pt_x = 3, pt_y = 4\<rparr>"
  have z: "(0::real) < 1" by simp
  have v: "layerVisible INITIAL_LAYERS ?l"
    by (simp add: layerVisible_def INITIAL_LAYERS_def)
  note T = zero_length_line_hit [OF z v]
  have d1: "distance \<lparr>pt_x = 6, pt_y = 4\<rparr> \<lparr>pt_x = 3, pt_y = 4\<rparr> < 5 / 1"
    by (simp add: distance_same_y)
  have d2: "\<not> distance \<lparr>pt_x = 10, pt_y = 4\<rparr> \<lparr>pt_x = 3, pt_y = 4\<rparr> < 5 / 1"
    by (simp add: distance_same_y)
  from T [of "\<lparr>pt_x = 6, pt_y = 4\<rparr>"] d1 have 1: "hitCallback INITIAL_LAYERS \<lparr>pt_x = 6, pt_y = 4\<rparr> 1 ?l"
    by blast
  from T [of "\<lparr>pt_x = 10, pt_y = 4\<rparr>"] d2 have 2: "\<not> hitCallback INITIAL_LAYERS \<lparr>pt_x = 10, pt_y = 4\<rparr> 1 ?l"
    by blast
  from z v 1 2 show ?thesis by blast
qed

section \<open>Rectangle hit test\<close>

text \<open>
  C1, as the code has it. The rectangle test compares the point with the anchor and with
  anchor plus the signed width and height, without normalising them: on a visible layer
  the rectangle is hit exactly when \<open>x \<le> px \<le> x + width\<close> and
  \<open>y \<le> py \<le> y + height\<close>. A rectangle of non-negative width and height that
  is the last entity is returned for every point inside its bounds; a rectangle with a
  negative width or height is hit by no point.
\<close>

theorem rect_hit_signed_bounds:
  assumes "layerVisible ls (RectEntity b x y w h)"
  shows "(hitCallback ls p zm (RectEntity b x y w h) \<longleftrightarrow>
            x \<le> pt_x p \<and> pt_x p \<le> x + w \<and> y \<le> pt_y p \<and> pt_y p \<le> y + h)
       \<and> (0 \<le> w \<and> 0 \<le> h \<and> x \<le> pt_x p \<and> pt_x p \<le> x + w \<and> y \<le> pt_y p \<and> pt_y p \<le> y + h
            \<longrightarrow> hitTest (ents @ [RectEntity b x y w h]) ls p zm = Some (RectEntity b x y w h))
       \<and> (w < 0 \<or> h < 0 \<longrightarrow> \<not> hitCallback ls p zm (RectEntity b x y w h))"
proof -
  have iff: "hitCallback ls p zm (RectEntity b x y w h) \<longleftrightarrow>
            x \<le> pt_x p \<and> pt_x p \<le> x + w \<and> y \<le> pt_y p \<and> pt_y p \<le> y + h"
    using assms by (simp add: hitCallback_visible)
  have "hitCallback ls p zm (RectEntity b x y w h)
          \<longrightarrow> hitTest (ents @ [RectEntity b x y w h]) ls p zm = Some (RectEntity b x y w h)"
    by (simp add: hitTest_def)
  moreover have "w < 0 \<or> h < 0 \<longrightarrow> \<not> hitCallback ls p zm (RectEntity b x y w h)"
    unfolding iff by auto
  ultimately show ?thesis using iff by blast
qed

theorem rect_hit_signed_bounds_witness:
  "layerVisible INITIAL_LAYERS
     (RectEntity \<lparr>ent_id = ''r'', layerId = ''0'', color = None, selected = None\<rparr> 10 10 40 30)
   \<and> hitTest
       ([] @ [RectEntity \<lparr>ent_id = ''r'', layerId = ''0'', color = None, selected = None\<rparr> 10 10 40 30])
       INITIAL_LAYERS \<lparr>pt_x = 20, pt_y = 20\<rparr> 1
     = Some (RectEntity \<lparr>ent_id = ''r'', layerId = ''0'', color = None, selected = None\<rparr> 10 10 40 30)
   \<and> layerVisible INITIAL_LAYERS
     (RectEntity \<lparr>ent_id = ''n'', layerId = ''0'', color = None, selected = None\<rparr> 10 10 (-5) (-5))
   \<and> \<not> hitCallback INITIAL_LAYERS \<lparr>pt_x = 8, pt_y = 8\<rparr> 1
     (RectEntity \<lparr>ent_id = ''n'', layerId = ''0'', color = None, selected = None\<rparr> 10 10 (-5) (-5))"
proof -
  let ?r = "RectEntity \<lparr>ent_id = ''r'', layerId = ''0'', color = None, selected = None\<rparr> 10 10 40 30"
  let ?n = "RectEntity \<lparr>ent_id = ''n'', layerId = ''0'', color = None, selected = None\<rparr> 10 10 (-5) (-5)"
  have vr: "layerVisible INITIAL_LAYERS ?r" and vn: "layerVisible INITIAL_LAYERS ?n"
    by (simp_all add: layerVisible_def INITIAL_LAYERS_def)
  have 1: "hitTest ([] @ [?r]) INITIAL_LAYERS \<lparr>pt_x = 20, pt_y = 20\<rparr> 1 = Some ?r"
    using rect_hit_signed_bounds [OF vr, of "\<lparr>pt_x = 20, pt_y = 20\<rparr>" 1 "[]"] by simp
  have 2: "\<not> hitCallback INITIAL_LAYERS \<lparr>pt_x = 8, pt_y = 8\<rparr> 1 ?n"
    using rect_hit_signed_bounds [OF vn, of "\<lparr>pt_x = 8, pt_y = 8\<rparr>" 1 "[]"] by simp
  from vr vn 1 2 show ?thesis by blast
qed

text \<open>
  C1, as stated, fails: the rectangle anchored at (10, 10) with width and height -5 covers
  the square from (5, 5) to (10, 10), and a select-click at (8, 8) hits nothing.
\<close>

theorem rect_negative_size_counterexample:
  "min 10 (10 + (- 5)) \<le> (8::real) \<and> (8::real) \<le> max 10 (10 + (- 5))
   \<and> min 10 (10 + (- 5)) \<le> (8::real) \<and> (8::real) \<le> max 10 (10 + (- 5))
   \<and> layerVisible INITIAL_LAYERS
       (RectEntity \<lparr>ent_id = ''n'', layerId = ''0'', color = None, selected = None\<rparr> 10 10 (- 5) (- 5))
   \<and> hitTest
       [RectEntity \<lparr>ent_id = ''n'', layerId = ''0'', color = None, selected = None\<rparr> 10 10 (- 5) (- 5)]
       INITIAL_LAYERS \<lparr>pt_x = 8, pt_y = 8\<rparr> 1 = None
   \<and> handleMouseDown (Some \<lparr>rect_left = 0, rect_top = 0\<rparr>) ''x''
       \<lparr>clientX = 8, clientY = 8, button = 0\<rparr>
       (initialState\<lparr>entities :=
          [RectEntity \<lparr>ent_id = ''n'', layerId = ''0'', color = None, selected = None\<rparr> 10 10 (- 5) (- 5)]\<rparr>)
     = Inr (initialState\<lparr>entities :=
          [RectEntity \<lparr>ent_id = ''n'', layerId = ''0'', color = None, selected = None\<rparr> 10 10 (- 5) (- 5)],
          selectedIds := []\<rparr>)"
  by (simp add: layerVisible_def INITIAL_LAYERS_def hitTest_def hitCallback_def
        handleMouseDown_def initialState_def INITIAL_VIEW_def eventWorldPos_def screenToWorld_def)

section \<open>Coordinate transforms\<close>

text \<open>
  C4. For a strictly positive zoom, mapping a screen point to world space and back with
  the same pan offset and zoom gives the screen point again.
\<close>

theorem screen_world_roundtrip:
  assumes "0 < z"
  shows "worldToScreen (pt_x (screenToWorld sx sy px py z)) (pt_y (screenToWorld sx sy px py z)) px py z
         = \<lparr>pt_x = sx, pt_y = sy\<rparr>"
  using assms by (simp add: worldToScreen_def screenToWorld_def)

theorem screen_world_roundtrip_witness:
  "(0::real) < 2 \<and>
   worldToScreen (pt_x (screenToWorld 30 50 10 20 2)) (pt_y (screenToWorld 30 50 10 20 2)) 10 20 2
     = \<lparr>pt_x = 30, pt_y = 50\<rparr>"
  using screen_world_roundtrip [of 2 30 50 10 20] by simp

section \<open>Rectangle draw scenario\<close>

text \<open>
  C3. With the Rectangle tool active, no drawing in progress, no pan drag in progress and
  at least one layer, a pointer-down (not the middle button) at world (10, 10), a
  pointer-move to world (50, 40) and a second pointer-down (not the middle button) append
  exactly one rectangle with x = 10, y = 10, width = 40, height = 30 on the active layer
  to the end of the entity list, clear the preview and the anchor, and leave the tool
  state machine idle. The rest of the state is unchanged except for the history message
  and the recorded mouse position.
\<close>

theorem rectangle_draw_scenario:
  assumes "tool s = RECTANGLE" and "\<not> isDrawing s" and "dragStart s = None"
    and "getActiveLayer s = Some activeLayer"
    and "button e1 \<noteq> 1" and "button e3 \<noteq> 1"
    and "eventWorldPos rect1 e1 s = \<lparr>pt_x = 10, pt_y = 10\<rparr>"
    and "eventWorldPos rect2 e2 s = \<lparr>pt_x = 50, pt_y = 40\<rparr>"
  shows
    "let newRect = RectEntity \<lparr>ent_id = newId, layerId = activeLayerId s,
                              color = Some (layer_color activeLayer), selected = Some False\<rparr>
                     10 10 40 30;
         s1 = s\<lparr>isDrawing := True, startPoint := Some \<lparr>pt_x = 10, pt_y = 10\<rparr>,
                previewEntity :=
                  Some (RectEntity \<lparr>ent_id = newId, layerId = activeLayerId s,
                                    color = Some (layer_color activeLayer),
                                    selected = Some False\<rparr> 10 10 0 0)\<rparr>;
         s2 = handleMouseMove (Some rect2) e2 s1;
         s3 = s\<lparr>entities := entities s @ [newRect], previewEntity := None,
                isDrawing := False, startPoint := None,
                commandHistory := addToHistory ''Created rect'' (commandHistory s),
                mousePos := \<lparr>pt_x = 50, pt_y = 40\<rparr>\<rparr>
     in handleMouseDown (Some rect1) newId e1 s = Inr s1
        \<and> previewEntity s2 = Some newRect
        \<and> handleMouseDown (Some rect3) newId3 e3 s2 = Inr s3
        \<and> entities s3 = entities s @ [newRect]
        \<and> \<not> isDrawing s3 \<and> previewEntity s3 = None \<and> startPoint s3 = None"
proof -
  let ?common = "\<lparr>ent_id = newId, layerId = activeLayerId s,
                   color = Some (layer_color activeLayer), selected = Some False\<rparr>"
  let ?s1 = "s\<lparr>isDrawing := True, startPoint := Some \<lparr>pt_x = 10, pt_y = 10\<rparr>,
                previewEntity := Some (RectEntity ?common 10 10 0 0)\<rparr>"
  let ?s2 = "?s1\<lparr>mousePos := \<lparr>pt_x = 50, pt_y = 40\<rparr>,
                 previewEntity := Some (RectEntity ?common 10 10 40 30)\<rparr>"
  have down1: "handleMouseDown (Some rect1) newId e1 s = Inr ?s1"
    using assms(1,2,4,5,7) by (simp add: handleMouseDown_def Let_def)
  have pos2: "eventWorldPos rect2 e2 ?s1 = \<lparr>pt_x = 50, pt_y = 40\<rparr>"
    using assms(8) by (simp add: eventWorldPos_def)
  have move: "handleMouseMove (Some rect2) e2 ?s1 = ?s2"
    using assms(3) pos2 by (simp add: handleMouseMove_def Let_def)
  have down3: "handleMouseDown (Some rect3) newId3 e3 ?s2
      = Inr (s\<lparr>entities := entities s @ [RectEntity ?common 10 10 40 30], previewEntity := None,
                isDrawing := False, startPoint := None,
                commandHistory := addToHistory ''Created rect'' (commandHistory s),
                mousePos := \<lparr>pt_x = 50, pt_y = 40\<rparr>\<rparr>)"
    using assms(1,6) by (simp add: handleMouseDown_def Let_def)
  show ?thesis
    unfolding Let_def move using down1 down3 by simp
qed

theorem rectangle_draw_scenario_witness:
  "handleMouseDown (Some \<lparr>rect_left = 0, rect_top = 0\<rparr>) ''id1''
     \<lparr>clientX = 10, clientY = 10, button = 0\<rparr> (initialState\<lparr>tool := RECTANGLE\<rparr>)
   = Inr (initialState\<lparr>tool := RECTANGLE, isDrawing := True,
           startPoint := Some \<lparr>pt_x = 10, pt_y = 10\<rparr>,
           previewEntity := Some (RectEntity
              \<lparr>ent_id = ''id1'', layerId = ''0'', color = Some ''#ffffff'', selected = Some False\<rparr>
              10 10 0 0)\<rparr>)
   \<and> handleMouseDown (Some \<lparr>rect_left = 0, rect_top = 0\<rparr>) ''id3''
     \<lparr>clientX = 70, clientY = 70, button = 0\<rparr>
     (handleMouseMove (Some \<lparr>rect_left = 0, rect_top = 0\<rparr>)
        \<lparr>clientX = 50, clientY = 40, button = 0\<rparr>
        (initialState\<lparr>tool := RECTANGLE, isDrawing := True,
           startPoint := Some \<lparr>pt_x = 10, pt_y = 10\<rparr>,
           previewEntity := Some (RectEntity
              \<lparr>ent_id = ''id1'', layerId = ''0'', color = Some ''#ffffff'', selected = Some False\<rparr>
              10 10 0 0)\<rparr>))
   = Inr (initialState\<lparr>tool := RECTANGLE,
        entities := [RectEntity
              \<lparr>ent_id = ''id1'', layerId = ''0'', color = Some ''#ffffff'', selected = Some False\<rparr>
              10 10 40 30],
        previewEntity := None, isDrawing := False, startPoint := None,
        commandHistory := [''Welcome to Gemini CAD Studio.'', ''Created rect''],
        mousePos := \<lparr>pt_x = 50, pt_y = 40\<rparr>\<rparr>)"
proof -
  let ?s = "initialState\<lparr>tool := RECTANGLE\<rparr>"
  let ?rect = "\<lparr>rect_left = 0, rect_top = 0\<rparr>"
  have h1: "tool ?s = RECTANGLE" "\<not> isDrawing ?s" "dragStart ?s = None"
    by (simp_all add: initialState_def)
  have h2: "getActiveLayer ?s = Some \<lparr>layer_id = ''0'', layer_name = ''0 (Default)'',
        layer_color = ''#ffffff'', visible = True, locked = False\<rparr>"
    by (simp add: getActiveLayer_def initialState_def INITIAL_LAYERS_def)
  have h3: "button \<lparr>clientX = 10, clientY = 10, button = 0\<rparr> \<noteq> 1"
    "button \<lparr>clientX = 70, clientY = 70, button = 0\<rparr> \<noteq> 1"
    by simp_all
  have h4: "eventWorldPos ?rect \<lparr>clientX = 10, clientY = 10, button = 0\<rparr> ?s = \<lparr>pt_x = 10, pt_y = 10\<rparr>"
    "eventWorldPos ?rect \<lparr>clientX = 50, clientY = 40, button = 0\<rparr> ?s = \<lparr>pt_x = 50, pt_y = 40\<rparr>"
    by (simp_all add: eventWorldPos_def screenToWorld_def initialState_def INITIAL_VIEW_def)
  from rectangle_draw_scenario [OF h1 h2 h3 h4, of "''id1''" ?rect "''id3''"]
  show ?thesis
    by (simp add: Let_def initialState_def addToHistory_def)
qed

section \<open>Wheel zoom\<close>

text \<open>
  C8. One wheel event multiplies the zoom by 1.1 when \<open>deltaY\<close> is negative and
  divides it by 1.1 otherwise; the pan offset and the rest of the state are unchanged.
  No bound is applied: \<open>n\<close> wheel events in one direction scale the zoom by
  \<open>1.1 ^ n\<close>, or by its inverse.
\<close>

theorem wheel_zoom_center_invariant:
  "handleWheel deltaY s
     = s\<lparr>view := (view s)\<lparr>zoom := (if deltaY < 0 then zoom (view s) * 1.1
                                    else zoom (view s) / 1.1)\<rparr>\<rparr>
   \<and> zoom (view (handleWheel deltaY s))
       = (if deltaY < 0 then zoom (view s) * 1.1 else zoom (view s) / 1.1)
   \<and> view_x (view (handleWheel deltaY s)) = view_x (view s)
   \<and> view_y (view (handleWheel deltaY s)) = view_y (view s)
   \<and> zoom (view ((handleWheel deltaY ^^ n) s))
       = (if deltaY < 0 then zoom (view s) * 1.1 ^ n else zoom (view s) / 1.1 ^ n)"
  by (simp add: handleWheel_funpow) (simp add: handleWheel_def)

theorem wheel_zoom_center_invariant_witness:
  "zoom (view (handleWheel (- 100) initialState)) = 1.1
   \<and> zoom (view (handleWheel 100 initialState)) = 1 / 1.1
   \<and> view_x (view (handleWheel 100 (initialState\<lparr>view := \<lparr>view_x = 3, view_y = 4, zoom = 2\<rparr>\<rparr>))) = 3
   \<and> zoom (view ((handleWheel (- 100) ^^ 2) initialState)) = 1.21"
  using wheel_zoom_center_invariant [of "- 100" initialState 2]
    wheel_zoom_center_invariant [of 100 initialState 0]
    wheel_zoom_center_invariant [of 100 "initialState\<lparr>view := \<lparr>view_x = 3, view_y = 4, zoom = 2\<rparr>\<rparr>" 0]
  by (simp add: initialState_def INITIAL_VIEW_def power2_eq_square)

section \<open>Selection invariant\<close>

text \<open>
  C10. In every reachable state the selection holds at most one identifier. A
  select-click sets it to the identifier of the hit entity alone, or to the empty list
  when nothing is hit; the delete action and the Delete and Escape keys leave it empty.
\<close>

theorem selection_at_most_one:
  assumes "reachable s"
  shows "length (selectedIds s) \<le> 1
       \<and> (tool s = SELECT \<and> button e \<noteq> 1 \<longrightarrow>
            handleMouseDown (Some rect) newId e s
              = Inr (s\<lparr>selectedIds :=
                        (case hitTest (entities s) (layers s) (eventWorldPos rect e s)
                                (zoom (view s)) of
                           Some hit \<Rightarrow> [ent_id (base hit)]
                         | None \<Rightarrow> [])\<rparr>))
       \<and> selectedIds (handleDelete s) = []
       \<and> selectedIds (handleKey ''Delete'' s) = []
       \<and> selectedIds (handleKey ''Escape'' s) = []"
proof -
  have click: "tool s = SELECT \<and> button e \<noteq> 1 \<longrightarrow>
            handleMouseDown (Some rect) newId e s
              = Inr (s\<lparr>selectedIds :=
                        (case hitTest (entities s) (layers s) (eventWorldPos rect e s)
                                (zoom (view s)) of
                           Some hit \<Rightarrow> [ent_id (base hit)]
                         | None \<Rightarrow> [])\<rparr>)"
    by (simp add: handleMouseDown_def Let_def split: option.splits)
  have keys: "selectedIds (handleKey ''Delete'' s) = []" "selectedIds (handleKey ''Escape'' s) = []"
    by (simp_all add: handleKey_def handleDelete_def)
  from reachable_selection [OF assms] click handleDelete_selection [of s] keys
  show ?thesis by blast
qed

theorem selection_at_most_one_witness:
  "reachable
     (initialState\<lparr>entities :=
        [RectEntity \<lparr>ent_id = ''r1'', layerId = ''0'', color = None, selected = None\<rparr> 10 10 40 30],
        commandHistory := [''Welcome to Gemini CAD Studio.'', ''AI: Generated 1 entities.''],
        selectedIds := [''r1'']\<rparr>)
   \<and> length (selectedIds
        (initialState\<lparr>entities :=
           [RectEntity \<lparr>ent_id = ''r1'', layerId = ''0'', color = None, selected = None\<rparr> 10 10 40 30],
           commandHistory := [''Welcome to Gemini CAD Studio.'', ''AI: Generated 1 entities.''],
           selectedIds := [''r1'']\<rparr>)) \<le> 1
   \<and> selectedIds (handleDelete
        (initialState\<lparr>entities :=
           [RectEntity \<lparr>ent_id = ''r1'', layerId = ''0'', color = None, selected = None\<rparr> 10 10 40 30],
           commandHistory := [''Welcome to Gemini CAD Studio.'', ''AI: Generated 1 entities.''],
           selectedIds := [''r1'']\<rparr>)) = []"
proof -
  let ?r = "RectEntity \<lparr>ent_id = ''r1'', layerId = ''0'', color = None, selected = None\<rparr> 10 10 40 30"
  let ?s1 = "initialState\<lparr>entities := [?r],
        commandHistory := [''Welcome to Gemini CAD Studio.'', ''AI: Generated 1 entities.'']\<rparr>"
  let ?s2 = "initialState\<lparr>entities := [?r],
        commandHistory := [''Welcome to Gemini CAD Studio.'', ''AI: Generated 1 entities.''],
        selectedIds := [''r1'']\<rparr>"
  have "geminiSucceeded [?r] initialState = ?s1"
    by (simp add: geminiSucceeded_def initialState_def addToHistory_def)
  with r_geminiSucceeded [OF r_init, of "[?r]"] have r1: "reachable ?s1" by simp
  have "handleMouseDown (Some \<lparr>rect_left = 0, rect_top = 0\<rparr>) ''x''
          \<lparr>clientX = 20, clientY = 20, button = 0\<rparr> ?s1 = Inr ?s2"
    by (simp add: handleMouseDown_def initialState_def INITIAL_VIEW_def INITIAL_LAYERS_def
          eventWorldPos_def screenToWorld_def hitTest_def hitCallback_def layerVisible_def)
  with r_mouseDown [OF r1] have r2: "reachable ?s2" by blast
  from r2 selection_at_most_one [OF r2] show ?thesis by blast
qed

section \<open>Serializer: circle record\<close>

text \<open>
  C6. A circle is written as the record \<open>0 CIRCLE 8 layerId 10 cx 20 -cy 40 r\<close>, one
  item per line: the Y ordinate of the centre is negated, the radius is not. The record
  stands after the prologue and the records of the earlier entities and before the
  records of the later entities and the trailer. The circle with centre (5, 5), radius 2
  on layer 0 gives the lines 10, 5, 20, -5, 40, 2 in this order.
\<close>

theorem dxf_circle_record:
  "dxfRecord other (CircleEntity b cx cy r)
     = ''0\<newline>CIRCLE\<newline>8\<newline>'' @ layerId b
       @ ''\<newline>10\<newline>'' @ numberToString other cx
       @ ''\<newline>20\<newline>'' @ numberToString other (- cy)
       @ ''\<newline>40\<newline>'' @ numberToString other r @ ''\<newline>''
   \<and> createDXFContent other (before @ CircleEntity b cx cy r # after)
     = dxfPrologue @ concat (map (dxfRecord other) before)
       @ dxfRecord other (CircleEntity b cx cy r)
       @ concat (map (dxfRecord other) after) @ dxfTrailer
   \<and> createDXFContent other
       [CircleEntity \<lparr>ent_id = i, layerId = ''0'', color = c, selected = sel\<rparr> 5 5 2]
     = dxfPrologue
       @ ''0\<newline>CIRCLE\<newline>8\<newline>0\<newline>10\<newline>5\<newline>20\<newline>-5\<newline>40\<newline>2\<newline>''
       @ dxfTrailer"
  by (simp add: createDXFContent_concat numberToString_small)

theorem dxf_circle_record_witness:
  "createDXFContent (\<lambda>v. ''?'')
     ([TextEntity \<lparr>ent_id = ''t'', layerId = ''1'', color = None, selected = None\<rparr> 1 1 ''hi'' 12]
      @ CircleEntity \<lparr>ent_id = ''c'', layerId = ''L2'', color = None, selected = None\<rparr> 7 (- 3) 1 # [])
   = dxfPrologue
     @ ''0\<newline>CIRCLE\<newline>8\<newline>L2\<newline>10\<newline>7\<newline>20\<newline>3\<newline>40\<newline>1\<newline>''
     @ dxfTrailer"
  using dxf_circle_record [of "\<lambda>v. ''?''"
      "\<lparr>ent_id = ''c'', layerId = ''L2'', color = None, selected = None\<rparr>" 7 "- 3" 1
      "[TextEntity \<lparr>ent_id = ''t'', layerId = ''1'', color = None, selected = None\<rparr> 1 1 ''hi'' 12]" "[]"]
  by (simp add: numberToString_def)

section \<open>Serializer: prologue and trailer\<close>

text \<open>
  C7. For every entity list the output is the fixed prologue, then the records of the
  entities in order, then the fixed trailer; for the empty list it is the prologue
  immediately followed by the trailer.
\<close>

theorem dxf_prologue_trailer:
  "createDXFContent other ents
     = dxfPrologue @ concat (map (dxfRecord other) ents) @ dxfTrailer
   \<and> createDXFContent other [] = dxfPrologue @ dxfTrailer
   \<and> createDXFContent other []
     = ''0\<newline>SECTION\<newline>2\<newline>HEADER\<newline>0\<newline>ENDSEC\<newline>0\<newline>SECTION\<newline>2\<newline>ENTITIES\<newline>0\<newline>ENDSEC\<newline>0\<newline>EOF\<newline>''"
  by (simp add: createDXFContent_concat) (simp add: dxfPrologue_def dxfTrailer_def)

theorem dxf_prologue_trailer_witness:
  "createDXFContent (\<lambda>v. ''?'')
     [LineEntity \<lparr>ent_id = ''l'', layerId = ''0'', color = None, selected = None\<rparr>
        \<lparr>pt_x = 1, pt_y = 2\<rparr> \<lparr>pt_x = 7, pt_y = 0\<rparr>]
   = ''0\<newline>SECTION\<newline>2\<newline>HEADER\<newline>0\<newline>ENDSEC\<newline>0\<newline>SECTION\<newline>2\<newline>ENTITIES\<newline>''
     @ ''0\<newline>LINE\<newline>8\<newline>0\<newline>10\<newline>1\<newline>20\<newline>-2\<newline>11\<newline>7\<newline>21\<newline>0\<newline>''
     @ ''0\<newline>ENDSEC\<newline>0\<newline>EOF\<newline>''"
  using dxf_prologue_trailer [of "\<lambda>v. ''?''"
      "[LineEntity \<lparr>ent_id = ''l'', layerId = ''0'', color = None, selected = None\<rparr>
        \<lparr>pt_x = 1, pt_y = 2\<rparr> \<lparr>pt_x = 7, pt_y = 0\<rparr>]"]
  by (simp add: numberToString_def dxfPrologue_def dxfTrailer_def)

end
